theory Spec2Isabelle
  imports Main
begin

section \<open>Values handled by the script\<close>

text \<open>
  The script never computes with numbers: it only tests them for truthiness and turns
  them into text. A number is therefore kept as one of the three falsy numbers or as the
  text that JavaScript prints for it (which is unique for every other number).
\<close>

datatype jsnum = NumNaN | NumZero | NumNegZero | NumNonZero string

datatype prim = PUndefined | PNull | PBool bool | PNum jsnum | PStr string

text \<open>
  A decoded JSON value: a primitive, a flat record (the fields of an Item are primitives)
  or an array. The property list of a record is read with \<open>map_of\<close>.
\<close>

datatype jsval = JPrim prim | JObj "(string \<times> prim) list" | JArr "jsval list"

datatype js_error = TypeError | SyntaxError | Error string

fun num_to_string :: "jsnum \<Rightarrow> string" where
  "num_to_string NumNaN = ''NaN''"
| "num_to_string NumZero = ''0''"
| "num_to_string NumNegZero = ''0''"
| "num_to_string (NumNonZero s) = s"

text \<open>ToString, as applied by \<open>img.src = v\<close>, \<open>img.alt = v\<close>, \<open>dataset.id = v\<close> and
  template literals.\<close>

fun to_string :: "prim \<Rightarrow> string" where
  "to_string PUndefined = ''undefined''"
| "to_string PNull = ''null''"
| "to_string (PBool b) = (if b then ''true'' else ''false'')"
| "to_string (PNum n) = num_to_string n"
| "to_string (PStr s) = s"

text \<open>The conversion of \<open>node.textContent = v\<close>: null and undefined give the empty text.\<close>

fun text_content_of :: "prim \<Rightarrow> string" where
  "text_content_of PUndefined = []"
| "text_content_of PNull = []"
| "text_content_of v = to_string v"

text \<open>ToBoolean, the test behind \<open>!v\<close>.\<close>

fun prim_to_boolean :: "prim \<Rightarrow> bool" where
  "prim_to_boolean PUndefined = False"
| "prim_to_boolean PNull = False"
| "prim_to_boolean (PBool b) = b"
| "prim_to_boolean (PNum NumNaN) = False"
| "prim_to_boolean (PNum NumZero) = False"
| "prim_to_boolean (PNum NumNegZero) = False"
| "prim_to_boolean (PNum (NumNonZero s)) = True"
| "prim_to_boolean (PStr s) = (s \<noteq> [])"

fun to_boolean :: "jsval \<Rightarrow> bool" where
  "to_boolean (JPrim p) = prim_to_boolean p"
| "to_boolean (JObj fs) = True"
| "to_boolean (JArr xs) = True"

fun is_nullish :: "jsval \<Rightarrow> bool" where
  "is_nullish (JPrim PUndefined) = True"
| "is_nullish (JPrim PNull) = True"
| "is_nullish v = False"

text \<open>
  Reading one of the properties the script reads (\<open>image\<close>, \<open>name\<close>, \<open>id\<close>,
  \<open>restaurant\<close>, \<open>rating\<close>, \<open>comment\<close>): a record gives the stored value or undefined;
  primitives and arrays have none of these properties.
\<close>

fun js_lookup :: "jsval \<Rightarrow> string \<Rightarrow> prim" where
  "js_lookup (JObj fs) k = (case map_of fs k of None \<Rightarrow> PUndefined | Some v \<Rightarrow> v)"
| "js_lookup v k = PUndefined"

text \<open>The member access \<open>v.k\<close>: a TypeError on null and undefined.\<close>

definition get_member :: "jsval \<Rightarrow> string \<Rightarrow> js_error + prim" where
  "get_member v k = (if is_nullish v then Inl TypeError else Inr (js_lookup v k))"

text \<open>How a piece of code ends: normally, or by throwing, in both cases leaving a state.\<close>

datatype 's completion = Normal 's | Throws js_error 's

section \<open>The page\<close>

datatype listener = HandleClick

record img_element =
  img_src :: "string option"
  img_alt :: "string option"
  data_id :: "string option"
  class_list :: "string list"
  click_listeners :: "listener list"

text \<open>\<open>document.createElement('img')\<close>\<close>

definition createElement_img :: img_element where
  "createElement_img =
     \<lparr>img_src = None, img_alt = None, data_id = None, class_list = [], click_listeners = []\<rparr>"

text \<open>\<open>classList.add\<close> and \<open>addEventListener\<close> both ignore an entry that is already there.\<close>

definition add_once :: "'a \<Rightarrow> 'a list \<Rightarrow> 'a list" where
  "add_once x xs = (if x \<in> set xs then xs else xs @ [x])"

text \<open>A child of \<open>#ramen-menu\<close>: an image, or the paragraph written through innerHTML.\<close>

datatype menu_child = ImgChild img_element | ParagraphChild string

fun selectable_nodes :: "menu_child list \<Rightarrow> img_element list" where
  "selectable_nodes [] = []"
| "selectable_nodes (ImgChild i # cs) = i # selectable_nodes cs"
| "selectable_nodes (ParagraphChild t # cs) = selectable_nodes cs"

datatype log_arg = LogText string | LogError js_error | LogValue jsval

record page =
  ramenMenuDiv :: "menu_child list"
  detailImage_src :: string
  detailImage_alt :: string
  detailName :: string
  detailRestaurant :: string
  detailRating :: string
  detailComment :: string
  console :: "log_arg list list"
  fetched :: "string list"

text \<open>The five slots of the detail view: image source, name, restaurant, rating, comment.\<close>

definition detail_slots :: "page \<Rightarrow> string \<times> string \<times> string \<times> string \<times> string" where
  "detail_slots w =
     (detailImage_src w, detailName w, detailRestaurant w, detailRating w, detailComment w)"

definition console_error :: "log_arg list \<Rightarrow> page \<Rightarrow> page" where
  "console_error args w = w\<lparr>console := console w @ [args]\<rparr>"

definition fetch :: "string \<Rightarrow> page \<Rightarrow> page" where
  "fetch url w = w\<lparr>fetched := fetched w @ [url]\<rparr>"

section \<open>The remote source\<close>

definition baseURL :: string where
  "baseURL = ''http://localhost:3000''"

datatype body = Malformed | Decoded jsval

text \<open>What a fetch settles to: a rejection, or a response with a status and a body.\<close>

datatype fetch_outcome = Rejected | Fulfilled nat body

definition response_ok :: "nat \<Rightarrow> bool" where
  "response_ok st = (200 \<le> st \<and> st \<le> 299)"

definition digit_char :: "nat \<Rightarrow> char" where
  "digit_char d = ''0123456789'' ! (d mod 10)"

fun string_of_nat :: "nat \<Rightarrow> string" where
  "string_of_nat n =
     (if n < 10 then [digit_char n] else string_of_nat (n div 10) @ [digit_char (n mod 10)])"

declare string_of_nat.simps [simp del]

text \<open>
  The first \<open>.then\<close> callback, written twice in the script (lines 21-26 and 68-73):
  throw on a status that is not ok, otherwise decode the body.
\<close>

fun ok_then_json :: "fetch_outcome \<Rightarrow> js_error + jsval" where
  "ok_then_json Rejected = Inl TypeError"
| "ok_then_json (Fulfilled st b) =
     (if \<not> response_ok st then Inl (Error (''HTTP error! status: '' @ string_of_nat st))
      else (case b of Malformed \<Rightarrow> Inl SyntaxError | Decoded v \<Rightarrow> Inr v))"

section \<open>displayRamens\<close>

text \<open>The body of the \<open>forEach\<close> callback (lines 30-39).\<close>

definition append_ramen :: "jsval \<Rightarrow> page \<Rightarrow> page completion" where
  "append_ramen ramen w =
     (case get_member ramen ''image'' of Inl e \<Rightarrow> Throws e w | Inr r_image \<Rightarrow>
      case get_member ramen ''name'' of Inl e \<Rightarrow> Throws e w | Inr r_name \<Rightarrow>
      case get_member ramen ''id'' of Inl e \<Rightarrow> Throws e w | Inr r_id \<Rightarrow>
        Normal (w\<lparr>ramenMenuDiv := ramenMenuDiv w @
          [ImgChild (createElement_img
             \<lparr>img_src := Some (to_string r_image),
              img_alt := Some (to_string r_name),
              data_id := Some (to_string r_id),
              class_list := add_once ''ramen-avatar'' (class_list createElement_img),
              click_listeners := add_once HandleClick (click_listeners createElement_img)\<rparr>)]\<rparr>))"

fun forEach_ramen :: "jsval list \<Rightarrow> page \<Rightarrow> page completion" where
  "forEach_ramen [] w = Normal w"
| "forEach_ramen (ramen # rest) w =
     (case append_ramen ramen w of
        Throws e w' \<Rightarrow> Throws e w'
      | Normal w' \<Rightarrow> forEach_ramen rest w')"

text \<open>The second \<open>.then\<close> callback (lines 27-48); only an array has \<open>forEach\<close>.\<close>

fun displayRamens_then :: "jsval \<Rightarrow> page \<Rightarrow> page completion" where
  "displayRamens_then (JArr ramens) w = forEach_ramen ramens (w\<lparr>ramenMenuDiv := []\<rparr>)"
| "displayRamens_then v w = Throws TypeError (w\<lparr>ramenMenuDiv := []\<rparr>)"

text \<open>The \<open>.catch\<close> callback (lines 49-52).\<close>

definition displayRamens_catch :: "js_error \<Rightarrow> page \<Rightarrow> page" where
  "displayRamens_catch e w =
     (console_error [LogText ''Error fetching ramens:'', LogError e] w)
       \<lparr>ramenMenuDiv := [ParagraphChild ''Failed to load ramen menu. Is the server running?'']\<rparr>"

text \<open>
  One invocation: the request is issued, and the chain of callbacks runs on what the
  fetch settles to. The chain ends in \<open>.catch\<close>, so nothing is thrown to the caller.
\<close>

definition displayRamens :: "fetch_outcome \<Rightarrow> page \<Rightarrow> page" where
  "displayRamens outcome w =
     (case ok_then_json outcome of
        Inl e \<Rightarrow> displayRamens_catch e (fetch (baseURL @ ''/ramens'') w)
      | Inr ramens \<Rightarrow>
          (case displayRamens_then ramens (fetch (baseURL @ ''/ramens'') w) of
             Throws e w' \<Rightarrow> displayRamens_catch e w'
           | Normal w' \<Rightarrow> w'))"

section \<open>renderDetail and handleClick\<close>

definition renderDetail :: "jsval \<Rightarrow> page \<Rightarrow> page completion" where
  "renderDetail ramen w =
     (if \<not> to_boolean ramen
      then Normal (console_error
             [LogText ''renderDetail called with invalid ramen data'', LogValue ramen] w)
      else
        case get_member ramen ''image'' of Inl e \<Rightarrow> Throws e w | Inr r_image \<Rightarrow>
        case get_member ramen ''name'' of
          Inl e \<Rightarrow> Throws e (w\<lparr>detailImage_src := to_string r_image\<rparr>)
        | Inr r_name \<Rightarrow>
        case get_member ramen ''restaurant'' of
          Inl e \<Rightarrow> Throws e (w\<lparr>detailImage_src := to_string r_image,
                                detailImage_alt := ''Image of '' @ to_string r_name,
                                detailName := text_content_of r_name\<rparr>)
        | Inr r_restaurant \<Rightarrow>
        case get_member ramen ''rating'' of
          Inl e \<Rightarrow> Throws e (w\<lparr>detailImage_src := to_string r_image,
                                detailImage_alt := ''Image of '' @ to_string r_name,
                                detailName := text_content_of r_name,
                                detailRestaurant := text_content_of r_restaurant\<rparr>)
        | Inr r_rating \<Rightarrow>
        case get_member ramen ''comment'' of
          Inl e \<Rightarrow> Throws e (w\<lparr>detailImage_src := to_string r_image,
                                detailImage_alt := ''Image of '' @ to_string r_name,
                                detailName := text_content_of r_name,
                                detailRestaurant := text_content_of r_restaurant,
                                detailRating := text_content_of r_rating\<rparr>)
        | Inr r_comment \<Rightarrow>
            Normal (w\<lparr>detailImage_src := to_string r_image,
                      detailImage_alt := ''Image of '' @ to_string r_name,
                      detailName := text_content_of r_name,
                      detailRestaurant := text_content_of r_restaurant,
                      detailRating := text_content_of r_rating,
                      detailComment := text_content_of r_comment\<rparr>))"

text \<open>The \<open>.catch\<close> callback of handleClick (lines 77-85).\<close>

definition handleClick_catch :: "string \<Rightarrow> js_error \<Rightarrow> page \<Rightarrow> page" where
  "handleClick_catch ramenId e w =
     (console_error
        [LogText (''Error fetching ramen details for ID '' @ ramenId @ '':''), LogError e] w)
       \<lparr>detailName := ''Error loading details'',
        detailRestaurant := [],
        detailRating := [],
        detailComment := [],
        detailImage_src := ''placeholder.jpg''\<rparr>"

text \<open>
  \<open>event.target.dataset.id\<close> is undefined when the attribute is absent; \<open>!ramenId\<close> holds
  for undefined and for the empty text.
\<close>

definition handleClick :: "img_element \<Rightarrow> fetch_outcome \<Rightarrow> page \<Rightarrow> page" where
  "handleClick target outcome w =
     (case data_id target of
        None \<Rightarrow> console_error [LogText ''Clicked image is missing a data-id attribute.''] w
      | Some ramenId \<Rightarrow>
          if ramenId = []
          then console_error [LogText ''Clicked image is missing a data-id attribute.''] w
          else
            (case ok_then_json outcome of
               Inl e \<Rightarrow> handleClick_catch ramenId e (fetch (baseURL @ ''/ramens/'' @ ramenId) w)
             | Inr ramen \<Rightarrow>
                 (case renderDetail ramen (fetch (baseURL @ ''/ramens/'' @ ramenId) w) of
                    Throws e w' \<Rightarrow> handleClick_catch ramenId e w'
                  | Normal w' \<Rightarrow> w')))"

text \<open>Activating a node runs the click listeners attached to it, in order.\<close>

fun run_listener :: "listener \<Rightarrow> img_element \<Rightarrow> fetch_outcome \<Rightarrow> page \<Rightarrow> page" where
  "run_listener HandleClick target outcome w = handleClick target outcome w"

definition dispatch_click :: "img_element \<Rightarrow> fetch_outcome \<Rightarrow> page \<Rightarrow> page" where
  "dispatch_click target outcome w =
     fold (\<lambda>l. run_listener l target outcome) (click_listeners target) w"

section \<open>handleFormSubmit and addNewRamenToMenu\<close>

record control =
  control_value :: string
  default_value :: string

text \<open>
  A form, seen through \<open>form[key]\<close>: the control it exposes under a key (an id or a
  name), if any. The markup of the form is not part of the script.
\<close>

type_synonym form = "string \<Rightarrow> control option"

record submit_event =
  target :: form
  cancelable :: bool
  defaultPrevented :: bool

text \<open>\<open>event.preventDefault()\<close> cancels the event when the event is cancelable.\<close>

definition preventDefault :: "submit_event \<Rightarrow> submit_event" where
  "preventDefault event =
     event\<lparr>defaultPrevented := (cancelable event \<or> defaultPrevented event)\<rparr>"

text \<open>\<open>event.target[key].value\<close>: a TypeError when the form has no such control.\<close>

definition field_value :: "form \<Rightarrow> string \<Rightarrow> js_error + string" where
  "field_value f k = (case f k of None \<Rightarrow> Inl TypeError | Some c \<Rightarrow> Inr (control_value c))"

text \<open>\<open>form.reset()\<close> gives every control its default value back.\<close>

definition form_reset :: "form \<Rightarrow> form" where
  "form_reset f = (\<lambda>k. map_option (\<lambda>c. c\<lparr>control_value := default_value c\<rparr>) (f k))"

text \<open>
  The call \<open>event.target.reset()\<close> (line 140). The named controls of a form override its
  own properties: when the form exposes a control under the key \<open>reset\<close>,
  \<open>event.target.reset\<close> is that control, and calling it is a TypeError.
\<close>

definition call_reset :: "form \<Rightarrow> js_error + form" where
  "call_reset f = (case f ''reset'' of Some c \<Rightarrow> Inl TypeError | None \<Rightarrow> Inr (form_reset f))"

text \<open>The object literal of lines 125-134.\<close>

definition newRamen :: "form \<Rightarrow> js_error + jsval" where
  "newRamen f =
     (case field_value f ''new-name'' of Inl e \<Rightarrow> Inl e | Inr v_name \<Rightarrow>
      case field_value f ''new-restaurant'' of Inl e \<Rightarrow> Inl e | Inr v_restaurant \<Rightarrow>
      case field_value f ''new-image'' of Inl e \<Rightarrow> Inl e | Inr v_image \<Rightarrow>
      case field_value f ''new-rating'' of Inl e \<Rightarrow> Inl e | Inr v_rating \<Rightarrow>
      case field_value f ''new-comment'' of Inl e \<Rightarrow> Inl e | Inr v_comment \<Rightarrow>
        Inr (JObj [(''name'', PStr v_name),
                   (''restaurant'', PStr v_restaurant),
                   (''image'', PStr v_image),
                   (''rating'', PStr v_rating),
                   (''comment'', PStr v_comment)]))"

definition addNewRamenToMenu :: "jsval \<Rightarrow> page \<Rightarrow> page completion" where
  "addNewRamenToMenu ramenData w =
     (case get_member ramenData ''image'' of Inl e \<Rightarrow> Throws e w | Inr r_image \<Rightarrow>
      case get_member ramenData ''name'' of Inl e \<Rightarrow> Throws e w | Inr r_name \<Rightarrow>
        Normal (w\<lparr>ramenMenuDiv := ramenMenuDiv w @
          [ImgChild (createElement_img
             \<lparr>img_src := Some (to_string r_image),
              img_alt := Some (to_string r_name),
              class_list := add_once ''ramen-avatar'' (class_list createElement_img)\<rparr>)]\<rparr>))"

definition handleFormSubmit ::
  "submit_event \<Rightarrow> page \<Rightarrow> (submit_event \<times> page) completion" where
  "handleFormSubmit event w =
     (case newRamen (target event) of
        Inl e \<Rightarrow> Throws e (preventDefault event, w)
      | Inr ramenData \<Rightarrow>
          (case addNewRamenToMenu ramenData w of
             Throws e w' \<Rightarrow> Throws e (preventDefault event, w')
           | Normal w' \<Rightarrow>
               (case call_reset (target event) of
                  Inl e \<Rightarrow> Throws e (preventDefault event, w')
                | Inr f' \<Rightarrow> Normal ((preventDefault event)\<lparr>target := f'\<rparr>, w'))))"

section \<open>Sample data\<close>

definition shoyu :: jsval where
  "shoyu = JObj [(''id'', PNum (NumNonZero ''1'')), (''name'', PStr ''Shoyu''),
                 (''restaurant'', PStr ''A''), (''image'', PStr ''a.jpg''),
                 (''rating'', PStr ''8''), (''comment'', PStr ''good'')]"

definition kake :: jsval where
  "kake = JObj [(''id'', PNum (NumNonZero ''2'')), (''name'', PStr ''Kake''),
                (''restaurant'', PStr ''F''), (''image'', PStr ''f.jpg''),
                (''rating'', PNum (NumNonZero ''7.5'')), (''comment'', PStr ''plain'')]"

definition stale_page :: page where
  "stale_page =
     \<lparr>ramenMenuDiv = [ImgChild \<lparr>img_src = Some ''old.jpg'', img_alt = Some ''Old'',
                                 data_id = Some ''9'', class_list = [''ramen-avatar''],
                                 click_listeners = [HandleClick]\<rparr>],
      detailImage_src = ''old.jpg'',
      detailImage_alt = ''Image of Old'',
      detailName = ''Old'',
      detailRestaurant = ''Old place'',
      detailRating = ''3'',
      detailComment = ''old comment'',
      console = [],
      fetched = []\<rparr>"

definition miso_form :: form where
  "miso_form = map_of
     [(''new-name'', \<lparr>control_value = ''Miso'', default_value = []\<rparr>),
      (''new-restaurant'', \<lparr>control_value = [], default_value = []\<rparr>),
      (''new-image'', \<lparr>control_value = ''b.jpg'', default_value = []\<rparr>),
      (''new-rating'', \<lparr>control_value = [], default_value = []\<rparr>),
      (''new-comment'', \<lparr>control_value = [], default_value = []\<rparr>)]"

definition four_field_form :: form where
  "four_field_form = map_of
     [(''new-name'', \<lparr>control_value = ''Tonkotsu'', default_value = []\<rparr>),
      (''new-restaurant'', \<lparr>control_value = ''B'', default_value = []\<rparr>),
      (''new-image'', \<lparr>control_value = ''c.jpg'', default_value = []\<rparr>),
      (''new-rating'', \<lparr>control_value = ''7'', default_value = []\<rparr>)]"

definition prefilled_form :: form where
  "prefilled_form = map_of
     [(''new-name'', \<lparr>control_value = ''Shio'', default_value = []\<rparr>),
      (''new-restaurant'', \<lparr>control_value = ''C'', default_value = []\<rparr>),
      (''new-image'', \<lparr>control_value = ''d.jpg'', default_value = []\<rparr>),
      (''new-rating'', \<lparr>control_value = ''9'', default_value = ''5''\<rparr>),
      (''new-comment'', \<lparr>control_value = ''fine'', default_value = []\<rparr>)]"

definition reset_named_form :: form where
  "reset_named_form = map_of
     [(''new-name'', \<lparr>control_value = ''Tantan'', default_value = []\<rparr>),
      (''new-restaurant'', \<lparr>control_value = ''E'', default_value = []\<rparr>),
      (''new-image'', \<lparr>control_value = ''e.jpg'', default_value = []\<rparr>),
      (''new-rating'', \<lparr>control_value = ''4'', default_value = []\<rparr>),
      (''new-comment'', \<lparr>control_value = ''hot'', default_value = []\<rparr>),
      (''reset'', \<lparr>control_value = ''Clear'', default_value = ''Clear''\<rparr>)]"

definition named_form :: form where
  "named_form = map_of
     [(''name'', \<lparr>control_value = ''Miso'', default_value = []\<rparr>),
      (''restaurant'', \<lparr>control_value = ''D'', default_value = []\<rparr>),
      (''image'', \<lparr>control_value = ''b.jpg'', default_value = []\<rparr>),
      (''rating'', \<lparr>control_value = ''6'', default_value = []\<rparr>),
      (''comment'', \<lparr>control_value = ''ok'', default_value = []\<rparr>)]"

definition name_only_form :: form where
  "name_only_form = map_of [(''new-name'', \<lparr>control_value = ''Miso'', default_value = []\<rparr>)]"

section \<open>Auxiliary facts\<close>

lemma get_member_not_nullish: "\<not> is_nullish v \<Longrightarrow> get_member v k = Inr (js_lookup v k)"
  by (simp add: get_member_def)

lemma to_boolean_not_nullish: "to_boolean v \<Longrightarrow> \<not> is_nullish v"
  by (cases v rule: is_nullish.cases) simp_all

lemma renderDetail_truthy:
  assumes "to_boolean ramen"
  shows "renderDetail ramen w =
           Normal (w\<lparr>detailImage_src := to_string (js_lookup ramen ''image''),
                     detailImage_alt := ''Image of '' @ to_string (js_lookup ramen ''name''),
                     detailName := text_content_of (js_lookup ramen ''name''),
                     detailRestaurant := text_content_of (js_lookup ramen ''restaurant''),
                     detailRating := text_content_of (js_lookup ramen ''rating''),
                     detailComment := text_content_of (js_lookup ramen ''comment'')\<rparr>)"
proof -
  from assms have "\<not> is_nullish ramen" by (rule to_boolean_not_nullish)
  then have "\<And>k. get_member ramen k = Inr (js_lookup ramen k)"
    by (simp add: get_member_def)
  with assms show ?thesis by (simp add: renderDetail_def)
qed

lemma forEach_ramen_appends:
  "\<forall>r\<in>set ramens. \<not> is_nullish r \<Longrightarrow>
   forEach_ramen ramens w =
     Normal (w\<lparr>ramenMenuDiv := ramenMenuDiv w @
       map (\<lambda>r. ImgChild \<lparr>img_src = Some (to_string (js_lookup r ''image'')),
                            img_alt = Some (to_string (js_lookup r ''name'')),
                            data_id = Some (to_string (js_lookup r ''id'')),
                            class_list = [''ramen-avatar''],
                            click_listeners = [HandleClick]\<rparr>) ramens\<rparr>)"
proof (induction ramens arbitrary: w)
  case Nil
  show ?case by simp
next
  case (Cons r rest)
  from Cons.prems have r: "\<not> is_nullish r" and rest: "\<forall>x\<in>set rest. \<not> is_nullish x"
    by simp_all
  from r have step: "append_ramen r w =
      Normal (w\<lparr>ramenMenuDiv := ramenMenuDiv w @
        [ImgChild \<lparr>img_src = Some (to_string (js_lookup r ''image'')),
                   img_alt = Some (to_string (js_lookup r ''name'')),
                   data_id = Some (to_string (js_lookup r ''id'')),
                   class_list = [''ramen-avatar''],
                   click_listeners = [HandleClick]\<rparr>]\<rparr>)"
    by (simp add: append_ramen_def get_member_not_nullish createElement_img_def add_once_def)
  show ?case
    by (simp add: step Cons.IH [OF rest])
qed

lemma selectable_nodes_imgs: "selectable_nodes (map (\<lambda>r. ImgChild (f r)) rs) = map f rs"
  by (induction rs) simp_all

lemma newRamen_present:
  assumes "f ''new-name'' = Some c_name"
    and "f ''new-restaurant'' = Some c_restaurant"
    and "f ''new-image'' = Some c_image"
    and "f ''new-rating'' = Some c_rating"
    and "f ''new-comment'' = Some c_comment"
  shows "newRamen f =
           Inr (JObj [(''name'', PStr (control_value c_name)),
                      (''restaurant'', PStr (control_value c_restaurant)),
                      (''image'', PStr (control_value c_image)),
                      (''rating'', PStr (control_value c_rating)),
                      (''comment'', PStr (control_value c_comment))])"
  using assms by (simp add: newRamen_def field_value_def)

section \<open>Collection loader\<close>

text \<open>
  C1. When the collection endpoint answers with a success status and a sequence of N
  items (records; none of them null), displayRamens leaves in the container exactly the
  N nodes built from the items, in the order of the sequence, whatever the container
  held before: the node of an item carries the item's image reference as its source, the
  item's identifier as its \<open>data-id\<close>, and handleClick as click listener.
\<close>

theorem displayRamens_renders_every_item:
  assumes "response_ok st" and "\<forall>r\<in>set ramens. \<not> is_nullish r"
  shows "ramenMenuDiv (displayRamens (Fulfilled st (Decoded (JArr ramens))) w) =
           map (\<lambda>r. ImgChild \<lparr>img_src = Some (to_string (js_lookup r ''image'')),
                                img_alt = Some (to_string (js_lookup r ''name'')),
                                data_id = Some (to_string (js_lookup r ''id'')),
                                class_list = [''ramen-avatar''],
                                click_listeners = [HandleClick]\<rparr>) ramens
         \<and> length (selectable_nodes
              (ramenMenuDiv (displayRamens (Fulfilled st (Decoded (JArr ramens))) w))) =
           length ramens"
proof -
  let ?node = "\<lambda>r. \<lparr>img_src = Some (to_string (js_lookup r ''image'')),
                     img_alt = Some (to_string (js_lookup r ''name'')),
                     data_id = Some (to_string (js_lookup r ''id'')),
                     class_list = [''ramen-avatar''],
                     click_listeners = [HandleClick]\<rparr>"
  have menu: "ramenMenuDiv (displayRamens (Fulfilled st (Decoded (JArr ramens))) w) =
      map (\<lambda>r. ImgChild (?node r)) ramens"
    using assms(1) by (simp add: displayRamens_def forEach_ramen_appends [OF assms(2)])
  have "length (selectable_nodes (map (\<lambda>r. ImgChild (?node r)) ramens)) = length ramens"
    by (simp only: selectable_nodes_imgs length_map)
  with menu show ?thesis by simp
qed

text \<open>
  The scenario of one item with identifier 1: a container that held an older node holds
  the single node with \<open>data-id\<close> 1 afterwards.
\<close>

theorem displayRamens_renders_every_item_witness:
  "ramenMenuDiv (displayRamens (Fulfilled 200 (Decoded (JArr [shoyu]))) stale_page) =
     [ImgChild \<lparr>img_src = Some ''a.jpg'', img_alt = Some ''Shoyu'', data_id = Some ''1'',
                class_list = [''ramen-avatar''], click_listeners = [HandleClick]\<rparr>]"
  using displayRamens_renders_every_item [of 200 "[shoyu]" stale_page]
  by (simp add: response_ok_def shoyu_def)

text \<open>
  C4. When the collection fetch is rejected or answers with a status that is not ok,
  displayRamens leaves the failure paragraph as the only child of the container, so that
  no selectable node remains; it logs one diagnostic and has issued the single request
  (no retry).
\<close>

theorem displayRamens_failure_message:
  assumes "outcome = Rejected \<or> (\<exists>st b. outcome = Fulfilled st b \<and> \<not> response_ok st)"
  shows "ramenMenuDiv (displayRamens outcome w) =
           [ParagraphChild ''Failed to load ramen menu. Is the server running?'']
         \<and> selectable_nodes (ramenMenuDiv (displayRamens outcome w)) = []
         \<and> fetched (displayRamens outcome w) = fetched w @ [baseURL @ ''/ramens'']
         \<and> (\<exists>e. console (displayRamens outcome w) =
                  console w @ [[LogText ''Error fetching ramens:'', LogError e]])"
  using assms
  by (auto simp add: displayRamens_def displayRamens_catch_def console_error_def fetch_def)

text \<open>
  A response with status 500 over a container that held a node.
\<close>

theorem displayRamens_failure_message_witness:
  "ramenMenuDiv (displayRamens (Fulfilled 500 Malformed) stale_page) =
     [ParagraphChild ''Failed to load ramen menu. Is the server running?'']
   \<and> selectable_nodes (ramenMenuDiv (displayRamens (Fulfilled 500 Malformed) stale_page)) = []
   \<and> fetched (displayRamens (Fulfilled 500 Malformed) stale_page) =
       [''http://localhost:3000/ramens'']"
  using displayRamens_failure_message [of "Fulfilled 500 Malformed" stale_page]
  by (simp add: response_ok_def stale_page_def baseURL_def)

section \<open>Detail presenter\<close>

text \<open>
  C2. For an Item given as a record whose image, name, restaurant and comment are
  texts and whose rating is a text or a number, renderDetail sets the five slots to the
  Item's fields, the rating being shown as that text or as the number printed (0 for
  both zeros, NaN for NaN), and sets the accessible text of the image to "Image of "
  followed by the name.
\<close>

theorem renderDetail_shows_item:
  assumes "map_of fs ''image'' = Some (PStr im)"
    and "map_of fs ''name'' = Some (PStr nm)"
    and "map_of fs ''restaurant'' = Some (PStr rs)"
    and "map_of fs ''rating'' = Some rt"
    and "rt = PStr shown \<or> rt = PNum (NumNonZero shown)
         \<or> (rt = PNum NumZero \<and> shown = ''0'')
         \<or> (rt = PNum NumNegZero \<and> shown = ''0'')
         \<or> (rt = PNum NumNaN \<and> shown = ''NaN'')"
    and "map_of fs ''comment'' = Some (PStr cm)"
  shows "renderDetail (JObj fs) w =
           Normal (w\<lparr>detailImage_src := im,
                     detailImage_alt := ''Image of '' @ nm,
                     detailName := nm,
                     detailRestaurant := rs,
                     detailRating := shown,
                     detailComment := cm\<rparr>)"
proof -
  from assms(5) have "text_content_of rt = shown" by auto
  with assms(1-4,6) show ?thesis by (simp add: renderDetail_truthy)
qed

text \<open>
  The Shoyu record of the scenario, whose rating is the text 8, and a record whose rating
  is the number 7.5, each over a detail view showing another item.
\<close>

theorem renderDetail_shows_item_witness:
  "renderDetail shoyu stale_page =
     Normal (stale_page\<lparr>detailImage_src := ''a.jpg'',
                        detailImage_alt := ''Image of Shoyu'',
                        detailName := ''Shoyu'',
                        detailRestaurant := ''A'',
                        detailRating := ''8'',
                        detailComment := ''good''\<rparr>)
   \<and> renderDetail kake stale_page =
     Normal (stale_page\<lparr>detailImage_src := ''f.jpg'',
                        detailImage_alt := ''Image of Kake'',
                        detailName := ''Kake'',
                        detailRestaurant := ''F'',
                        detailRating := ''7.5'',
                        detailComment := ''plain''\<rparr>)"
  using renderDetail_shows_item
    [of "[(''id'', PNum (NumNonZero ''1'')), (''name'', PStr ''Shoyu''),
          (''restaurant'', PStr ''A''), (''image'', PStr ''a.jpg''),
          (''rating'', PStr ''8''), (''comment'', PStr ''good'')]"
        "''a.jpg''" "''Shoyu''" "''A''" "PStr ''8''" "''8''" "''good''" stale_page]
    renderDetail_shows_item
    [of "[(''id'', PNum (NumNonZero ''2'')), (''name'', PStr ''Kake''),
          (''restaurant'', PStr ''F''), (''image'', PStr ''f.jpg''),
          (''rating'', PNum (NumNonZero ''7.5'')), (''comment'', PStr ''plain'')]"
        "''f.jpg''" "''Kake''" "''F''" "PNum (NumNonZero ''7.5'')" "''7.5''" "''plain''"
        stale_page]
  by (simp add: shoyu_def kake_def)

text \<open>
  C9. Called with null or with undefined, renderDetail logs one diagnostic and changes
  nothing else on the page: the five slots keep their content.
\<close>

theorem renderDetail_null_undefined_no_mutation:
  "renderDetail (JPrim PNull) w =
     Normal (w\<lparr>console := console w @
       [[LogText ''renderDetail called with invalid ramen data'', LogValue (JPrim PNull)]]\<rparr>)
   \<and> renderDetail (JPrim PUndefined) w =
     Normal (w\<lparr>console := console w @
       [[LogText ''renderDetail called with invalid ramen data'',
         LogValue (JPrim PUndefined)]]\<rparr>)"
  by (simp add: renderDetail_def console_error_def)

theorem renderDetail_null_undefined_no_mutation_witness:
  "renderDetail (JPrim PNull) stale_page =
     Normal (stale_page\<lparr>console :=
       [[LogText ''renderDetail called with invalid ramen data'', LogValue (JPrim PNull)]]\<rparr>)"
  using renderDetail_null_undefined_no_mutation [of stale_page]
  by (simp add: stale_page_def)

text \<open>
  C10. The guard of renderDetail rejects the other falsy values as well: called with 0,
  the empty text, false or NaN, it logs one diagnostic and changes nothing else on the
  page.
\<close>

theorem renderDetail_falsy_no_mutation:
  "renderDetail (JPrim (PNum NumZero)) w =
     Normal (w\<lparr>console := console w @
       [[LogText ''renderDetail called with invalid ramen data'',
         LogValue (JPrim (PNum NumZero))]]\<rparr>)
   \<and> renderDetail (JPrim (PStr [])) w =
     Normal (w\<lparr>console := console w @
       [[LogText ''renderDetail called with invalid ramen data'',
         LogValue (JPrim (PStr []))]]\<rparr>)
   \<and> renderDetail (JPrim (PBool False)) w =
     Normal (w\<lparr>console := console w @
       [[LogText ''renderDetail called with invalid ramen data'',
         LogValue (JPrim (PBool False))]]\<rparr>)
   \<and> renderDetail (JPrim (PNum NumNaN)) w =
     Normal (w\<lparr>console := console w @
       [[LogText ''renderDetail called with invalid ramen data'',
         LogValue (JPrim (PNum NumNaN))]]\<rparr>)"
  by (simp add: renderDetail_def console_error_def)

theorem renderDetail_falsy_no_mutation_witness:
  "renderDetail (JPrim (PNum NumZero)) stale_page =
     Normal (stale_page\<lparr>console :=
       [[LogText ''renderDetail called with invalid ramen data'',
         LogValue (JPrim (PNum NumZero))]]\<rparr>)"
  using renderDetail_falsy_no_mutation [of stale_page]
  by (simp add: stale_page_def)

section \<open>Activation handler\<close>

text \<open>
  C5. When a node with a non-empty identifier is activated and the fetch of its item is
  rejected or answers with a status that is not ok, handleClick logs one diagnostic,
  shows the fixed error text in the name slot, empties the restaurant, rating and comment
  slots and sets the image source to the placeholder; it has issued the single request
  (no retry).
\<close>

theorem handleClick_failure_error_state:
  assumes "data_id node = Some ramenId" and "ramenId \<noteq> []"
    and "outcome = Rejected \<or> (\<exists>st b. outcome = Fulfilled st b \<and> \<not> response_ok st)"
  shows "detailName (handleClick node outcome w) = ''Error loading details''
         \<and> detailRestaurant (handleClick node outcome w) = []
         \<and> detailRating (handleClick node outcome w) = []
         \<and> detailComment (handleClick node outcome w) = []
         \<and> detailImage_src (handleClick node outcome w) = ''placeholder.jpg''
         \<and> fetched (handleClick node outcome w) =
             fetched w @ [baseURL @ ''/ramens/'' @ ramenId]
         \<and> (\<exists>e. console (handleClick node outcome w) =
                  console w @
                  [[LogText (''Error fetching ramen details for ID '' @ ramenId @ '':''),
                    LogError e]])"
  using assms
  by (auto simp add: handleClick_def handleClick_catch_def console_error_def fetch_def)

text \<open>
  The node of item 1 and a response with status 404.
\<close>

theorem handleClick_failure_error_state_witness:
  "detailName (handleClick \<lparr>img_src = Some ''a.jpg'', img_alt = Some ''Shoyu'',
       data_id = Some ''1'', class_list = [''ramen-avatar''],
       click_listeners = [HandleClick]\<rparr> (Fulfilled 404 (Decoded (JObj []))) stale_page) =
     ''Error loading details''
   \<and> detailImage_src (handleClick \<lparr>img_src = Some ''a.jpg'', img_alt = Some ''Shoyu'',
       data_id = Some ''1'', class_list = [''ramen-avatar''],
       click_listeners = [HandleClick]\<rparr> (Fulfilled 404 (Decoded (JObj []))) stale_page) =
     ''placeholder.jpg''
   \<and> fetched (handleClick \<lparr>img_src = Some ''a.jpg'', img_alt = Some ''Shoyu'',
       data_id = Some ''1'', class_list = [''ramen-avatar''],
       click_listeners = [HandleClick]\<rparr> (Fulfilled 404 (Decoded (JObj []))) stale_page) =
     [''http://localhost:3000/ramens/1'']"
  using handleClick_failure_error_state
    [of "\<lparr>img_src = Some ''a.jpg'', img_alt = Some ''Shoyu'',
       data_id = Some ''1'', class_list = [''ramen-avatar''],
       click_listeners = [HandleClick]\<rparr>" "''1''" "Fulfilled 404 (Decoded (JObj []))" stale_page]
  by (simp add: response_ok_def stale_page_def baseURL_def)

text \<open>
  C8. Activating a node without a stored identifier logs one diagnostic and changes
  nothing else: no request is issued and the detail view keeps its content.
\<close>

theorem handleClick_missing_id_aborts:
  assumes "data_id node = None"
  shows "handleClick node outcome w =
           w\<lparr>console := console w @
              [[LogText ''Clicked image is missing a data-id attribute.'']]\<rparr>
         \<and> fetched (handleClick node outcome w) = fetched w
         \<and> detail_slots (handleClick node outcome w) = detail_slots w
         \<and> detailImage_alt (handleClick node outcome w) = detailImage_alt w"
  using assms by (simp add: handleClick_def console_error_def detail_slots_def)

text \<open>
  A node without \<open>data-id\<close>, even with handleClick attached and a server that would
  answer.
\<close>

theorem handleClick_missing_id_aborts_witness:
  "handleClick \<lparr>img_src = Some ''b.jpg'', img_alt = Some ''Miso'', data_id = None,
                class_list = [''ramen-avatar''], click_listeners = [HandleClick]\<rparr>
     (Fulfilled 200 (Decoded shoyu)) stale_page =
   stale_page\<lparr>console := [[LogText ''Clicked image is missing a data-id attribute.'']]\<rparr>"
  using handleClick_missing_id_aborts
    [of "\<lparr>img_src = Some ''b.jpg'', img_alt = Some ''Miso'', data_id = None,
          class_list = [''ramen-avatar''], click_listeners = [HandleClick]\<rparr>"
        "Fulfilled 200 (Decoded shoyu)" stale_page]
  by (simp add: stale_page_def)

section \<open>Local append handler\<close>

text \<open>
  C3, as the code has it. When the submitting form exposes the five controls
  \<open>new-name\<close>, \<open>new-restaurant\<close>, \<open>new-image\<close>, \<open>new-rating\<close> and
  \<open>new-comment\<close> and no control under the key \<open>reset\<close>, handleFormSubmit appends
  exactly one node to the container; the node has no identifier and no click listener, so
  activating it changes nothing on the page (no request, no change of the detail view);
  and the form is reset after the Item is built: every control goes back to its default
  value.
\<close>

theorem handleFormSubmit_appends_one_inert_node:
  assumes "target event ''new-name'' = Some c_name"
    and "target event ''new-restaurant'' = Some c_restaurant"
    and "target event ''new-image'' = Some c_image"
    and "target event ''new-rating'' = Some c_rating"
    and "target event ''new-comment'' = Some c_comment"
    and "target event ''reset'' = None"
  shows "handleFormSubmit event w =
           Normal (event\<lparr>defaultPrevented := (cancelable event \<or> defaultPrevented event),
                          target := form_reset (target event)\<rparr>,
                   w\<lparr>ramenMenuDiv := ramenMenuDiv w @
                      [ImgChild \<lparr>img_src = Some (control_value c_image),
                                 img_alt = Some (control_value c_name),
                                 data_id = None,
                                 class_list = [''ramen-avatar''],
                                 click_listeners = []\<rparr>]\<rparr>)
         \<and> dispatch_click \<lparr>img_src = Some (control_value c_image),
                            img_alt = Some (control_value c_name),
                            data_id = None,
                            class_list = [''ramen-avatar''],
                            click_listeners = []\<rparr> outcome w2 = w2
         \<and> form_reset (target event) ''new-name'' =
             Some (c_name\<lparr>control_value := default_value c_name\<rparr>)
         \<and> form_reset (target event) ''new-restaurant'' =
             Some (c_restaurant\<lparr>control_value := default_value c_restaurant\<rparr>)
         \<and> form_reset (target event) ''new-image'' =
             Some (c_image\<lparr>control_value := default_value c_image\<rparr>)
         \<and> form_reset (target event) ''new-rating'' =
             Some (c_rating\<lparr>control_value := default_value c_rating\<rparr>)
         \<and> form_reset (target event) ''new-comment'' =
             Some (c_comment\<lparr>control_value := default_value c_comment\<rparr>)"
  using assms
  by (simp add: handleFormSubmit_def newRamen_present [OF assms(1-5)] addNewRamenToMenu_def
      get_member_def createElement_img_def add_once_def dispatch_click_def form_reset_def
      call_reset_def preventDefault_def)

text \<open>
  The Miso submission of the scenario: its controls have empty defaults, so the form is
  empty afterwards.
\<close>

theorem handleFormSubmit_appends_one_inert_node_witness:
  "handleFormSubmit \<lparr>target = miso_form, cancelable = True, defaultPrevented = False\<rparr>
       stale_page =
     Normal (\<lparr>target = form_reset miso_form, cancelable = True, defaultPrevented = True\<rparr>,
             stale_page\<lparr>ramenMenuDiv := ramenMenuDiv stale_page @
                [ImgChild \<lparr>img_src = Some ''b.jpg'', img_alt = Some ''Miso'', data_id = None,
                           class_list = [''ramen-avatar''], click_listeners = []\<rparr>]\<rparr>)
   \<and> form_reset miso_form ''new-name'' = Some \<lparr>control_value = [], default_value = []\<rparr>"
  using handleFormSubmit_appends_one_inert_node
    [of "\<lparr>target = miso_form, cancelable = True, defaultPrevented = False\<rparr>"
        "\<lparr>control_value = ''Miso'', default_value = []\<rparr>"
        "\<lparr>control_value = [], default_value = []\<rparr>"
        "\<lparr>control_value = ''b.jpg'', default_value = []\<rparr>"
        "\<lparr>control_value = [], default_value = []\<rparr>"
        "\<lparr>control_value = [], default_value = []\<rparr>" stale_page]
  by (simp add: miso_form_def)

text \<open>
  The statement does not hold for every submission: a form without the
  \<open>new-comment\<close> control gets no node appended (the handler throws); a rating control
  whose default is 5 shows 5, not the empty text, after the reset; and a form that
  exposes a control under \<open>reset\<close> gets its node appended, but the call of the reset
  throws and the form keeps its values.
\<close>

theorem handleFormSubmit_counterexample:
  "handleFormSubmit \<lparr>target = four_field_form, cancelable = True, defaultPrevented = False\<rparr>
       stale_page =
     Throws TypeError
       (\<lparr>target = four_field_form, cancelable = True, defaultPrevented = True\<rparr>, stale_page)
   \<and> handleFormSubmit \<lparr>target = prefilled_form, cancelable = True, defaultPrevented = False\<rparr>
       stale_page =
     Normal (\<lparr>target = form_reset prefilled_form, cancelable = True, defaultPrevented = True\<rparr>,
             stale_page\<lparr>ramenMenuDiv := ramenMenuDiv stale_page @
                [ImgChild \<lparr>img_src = Some ''d.jpg'', img_alt = Some ''Shio'', data_id = None,
                           class_list = [''ramen-avatar''], click_listeners = []\<rparr>]\<rparr>)
   \<and> form_reset prefilled_form ''new-rating'' =
       Some \<lparr>control_value = ''5'', default_value = ''5''\<rparr>
   \<and> handleFormSubmit \<lparr>target = reset_named_form, cancelable = True, defaultPrevented = False\<rparr>
       stale_page =
     Throws TypeError
       (\<lparr>target = reset_named_form, cancelable = True, defaultPrevented = True\<rparr>,
        stale_page\<lparr>ramenMenuDiv := ramenMenuDiv stale_page @
           [ImgChild \<lparr>img_src = Some ''e.jpg'', img_alt = Some ''Tantan'', data_id = None,
                      class_list = [''ramen-avatar''], click_listeners = []\<rparr>]\<rparr>)"
  by (simp add: handleFormSubmit_def newRamen_def field_value_def addNewRamenToMenu_def
      get_member_def createElement_img_def add_once_def form_reset_def call_reset_def
      preventDefault_def four_field_form_def prefilled_form_def reset_named_form_def)

text \<open>
  C6, as the code has it. The Item is built from the values of the controls that the
  form exposes under \<open>new-name\<close>, \<open>new-restaurant\<close>, \<open>new-image\<close>, \<open>new-rating\<close>
  and \<open>new-comment\<close>, each taken as it is, as a text; the Item has the five fields
  name, restaurant, image, rating and comment, and no identifier.
\<close>

theorem newRamen_reads_new_controls:
  assumes "f ''new-name'' = Some c_name"
    and "f ''new-restaurant'' = Some c_restaurant"
    and "f ''new-image'' = Some c_image"
    and "f ''new-rating'' = Some c_rating"
    and "f ''new-comment'' = Some c_comment"
  shows "newRamen f =
           Inr (JObj [(''name'', PStr (control_value c_name)),
                      (''restaurant'', PStr (control_value c_restaurant)),
                      (''image'', PStr (control_value c_image)),
                      (''rating'', PStr (control_value c_rating)),
                      (''comment'', PStr (control_value c_comment))])
         \<and> js_lookup (JObj [(''name'', PStr (control_value c_name)),
                      (''restaurant'', PStr (control_value c_restaurant)),
                      (''image'', PStr (control_value c_image)),
                      (''rating'', PStr (control_value c_rating)),
                      (''comment'', PStr (control_value c_comment))]) ''id'' = PUndefined"
  using newRamen_present [OF assms] by simp

text \<open>
  The Miso submission: the empty fields stay empty texts.
\<close>

theorem newRamen_reads_new_controls_witness:
  "newRamen miso_form =
     Inr (JObj [(''name'', PStr ''Miso''), (''restaurant'', PStr []),
                (''image'', PStr ''b.jpg''), (''rating'', PStr []), (''comment'', PStr [])])"
  using newRamen_reads_new_controls
    [of miso_form "\<lparr>control_value = ''Miso'', default_value = []\<rparr>"
        "\<lparr>control_value = [], default_value = []\<rparr>"
        "\<lparr>control_value = ''b.jpg'', default_value = []\<rparr>"
        "\<lparr>control_value = [], default_value = []\<rparr>"
        "\<lparr>control_value = [], default_value = []\<rparr>"]
  by (simp add: miso_form_def)

text \<open>
  A form whose controls are exposed under \<open>name\<close>, \<open>restaurant\<close>, \<open>image\<close>,
  \<open>rating\<close> and \<open>comment\<close> only is not read: the construction throws.
\<close>

theorem newRamen_named_controls_counterexample:
  "newRamen named_form = Inl TypeError"
  by (simp add: newRamen_def field_value_def named_form_def)

text \<open>
  C7, as the code has it. When the form exposes all five controls \<open>new-name\<close>,
  \<open>new-restaurant\<close>, \<open>new-image\<close>, \<open>new-rating\<close> and \<open>new-comment\<close>, reading
  the fields and building the Item cannot throw; when one of them is absent, the reading
  throws a TypeError, and no field defaults to the empty text.
\<close>

theorem newRamen_throws_only_on_absent_control:
  "(\<exists>item. newRamen f = Inr item) =
     (f ''new-name'' \<noteq> None \<and> f ''new-restaurant'' \<noteq> None \<and> f ''new-image'' \<noteq> None
      \<and> f ''new-rating'' \<noteq> None \<and> f ''new-comment'' \<noteq> None)
   \<and> (newRamen f = Inl TypeError) =
     (f ''new-name'' = None \<or> f ''new-restaurant'' = None \<or> f ''new-image'' = None
      \<or> f ''new-rating'' = None \<or> f ''new-comment'' = None)"
  by (auto simp add: newRamen_def field_value_def split: option.splits)

text \<open>
  The Miso form has the five controls and gives an Item; the form without the comment
  control throws.
\<close>

theorem newRamen_throws_only_on_absent_control_witness:
  "newRamen miso_form \<noteq> Inl TypeError \<and> newRamen four_field_form = Inl TypeError"
  using newRamen_throws_only_on_absent_control [of miso_form]
    newRamen_throws_only_on_absent_control [of four_field_form]
  by (simp add: miso_form_def four_field_form_def)

text \<open>
  A form with the name control only: the other four fields do not default to the
  empty text, and the handler throws with nothing appended.
\<close>

theorem newRamen_no_default_counterexample:
  "newRamen name_only_form = Inl TypeError
   \<and> handleFormSubmit \<lparr>target = name_only_form, cancelable = True, defaultPrevented = False\<rparr>
       stale_page =
     Throws TypeError
       (\<lparr>target = name_only_form, cancelable = True, defaultPrevented = True\<rparr>, stale_page)"
  by (simp add: handleFormSubmit_def newRamen_def field_value_def preventDefault_def
      name_only_form_def)

end
